theory Spec2Isabelle
  imports Complex_Main "HOL-Library.Sublist"
begin

section \<open>Python values and errors\<close>

text \<open>
  The exceptions the modelled code can raise. A function that can raise returns
  \<open>py_error + 'a\<close>, with \<open>Inl\<close> for the exception.
\<close>

datatype py_error =
    ConnectionError
  | JSONDecodeError
  | AttributeError
  | UnboundLocalError
  | ValueError
  | ColumnNotFoundError
  | DuplicateError
  | InvalidOperationError
  | ShapeError

text \<open>Sequencing of statements that can raise: the first exception ends the run.\<close>

definition and_then :: "'e + 'a \<Rightarrow> ('a \<Rightarrow> 'e + 'b) \<Rightarrow> 'e + 'b" where
  "and_then x f = (case x of Inl e \<Rightarrow> Inl e | Inr v \<Rightarrow> f v)"

text \<open>
  \<open>str.upper()\<close> on ASCII text: the letters a to z are mapped to A to Z, every other
  character is kept.
\<close>

definition upper_char :: "char \<Rightarrow> char" where
  "upper_char c =
     (case map_of (zip ''abcdefghijklmnopqrstuvwxyz'' ''ABCDEFGHIJKLMNOPQRSTUVWXYZ'') c of
        Some u \<Rightarrow> u
      | None \<Rightarrow> c)"

definition upper :: "string \<Rightarrow> string" where
  "upper s = map upper_char s"

text \<open>
  The slice \<open>xs[i:]\<close> of Python: a negative start counts from the end and is clipped
  at the start of the list.
\<close>

definition py_slice_from :: "int \<Rightarrow> 'a list \<Rightarrow> 'a list" where
  "py_slice_from i xs =
     (if i < 0 then drop (nat (int (length xs) + i)) xs else drop (nat i) xs)"

section \<open>The normalizer's lease string\<close>

text \<open>
  The library's \<open>str.replace(pattern, value)\<close> replaces the first match only (its
  parameter \<open>n\<close> is 1 by default). The three patterns of the lease chain hold no regular
  expression operator, so a match is an occurrence of the pattern's text.
\<close>

fun str_replace :: "string \<Rightarrow> string \<Rightarrow> string \<Rightarrow> string" where
  "str_replace pat val [] = (if pat = [] then val else [])"
| "str_replace pat val (c # cs) =
     (if prefix pat (c # cs) then val @ drop (length pat) (c # cs)
      else c # str_replace pat val cs)"

text \<open>
  Lines 73 to 76:
  \<^verbatim>\<open>pl.col('lease_mths').str.replace("s", "").str.replace(" year", "y")
     .str.replace(" month", "m").alias('lease_mths')\<close>
\<close>

definition lease_mths :: "string \<Rightarrow> string" where
  "lease_mths s =
     str_replace '' month'' ''m'' (str_replace '' year'' ''y'' (str_replace ''s'' '''' s))"

definition is_digit :: "char \<Rightarrow> bool" where
  "is_digit c = (c \<in> set ''0123456789'')"

section \<open>Fetching the periods and merging the batches\<close>

text \<open>
  What \<open>requests.get\<close> does for one period: it raises when the transport fails, or it
  returns a response with a status code and a body. The body is \<open>Some records\<close> when
  \<open>response.json().get("result").get("records")\<close> gives the record list and \<open>None\<close>
  when the body is not JSON.
\<close>

datatype 'r http_result =
    TransportFailure
  | Response nat "'r list option"

text \<open>
  A frame of raw records: its column names and its rows. \<open>pl.DataFrame()\<close> has no
  columns and no rows, and \<open>pl.DataFrame(records)\<close> has the columns of the records, which
  are the fields that the request names (lines 26 to 29); without records it has no
  columns either.
\<close>

record 'r raw_frame =
  raw_columns :: "string list"
  raw_rows :: "'r list"

definition df_cols :: "string list" where
  "df_cols =
     [''month'', ''town'', ''flat_type'', ''block'', ''street_name'', ''storey_range'',
      ''floor_area_sqm'', ''remaining_lease'', ''resale_price'']"

definition empty_frame :: "'r raw_frame" where
  "empty_frame = \<lparr>raw_columns = [], raw_rows = []\<rparr>"

definition frame_of_records :: "'r list \<Rightarrow> 'r raw_frame" where
  "frame_of_records records =
     (if records = [] then empty_frame else \<lparr>raw_columns = df_cols, raw_rows = records\<rparr>)"

text \<open>
  Lines 36 to 46. The function has no exception handler: what \<open>requests.get\<close> raises
  leaves it.
\<close>

definition fetch_data_for_period ::
  "(string \<Rightarrow> 'r http_result) \<Rightarrow> string \<Rightarrow> py_error + 'r raw_frame" where
  "fetch_data_for_period requests_get period =
     (case requests_get period of
        TransportFailure \<Rightarrow> Inl ConnectionError
      | Response status_code body \<Rightarrow>
          if status_code = 200
          then (case body of
                  None \<Rightarrow> Inl JSONDecodeError
                | Some records \<Rightarrow> Inr (frame_of_records records))
          else Inr empty_frame)"

text \<open>
  \<open>pl.concat([recent_df, mth_df], how='vertical')\<close>: the rows of both frames when they
  have the same columns. A first frame without columns takes the place of nothing: the
  result is the second frame. In every other case the widths differ and the library
  raises ShapeError; so it does for a frame without columns that follows a frame with
  columns.
\<close>

definition pl_concat :: "'r raw_frame \<Rightarrow> 'r raw_frame \<Rightarrow> py_error + 'r raw_frame" where
  "pl_concat recent_df mth_df =
     (if raw_columns recent_df = raw_columns mth_df
      then Inr (recent_df\<lparr>raw_rows := raw_rows recent_df @ raw_rows mth_df\<rparr>)
      else if raw_columns recent_df = [] then Inr mth_df
      else Inl ShapeError)"

text \<open>
  Lines 54 to 56, the loop over \<open>as_completed(futures)\<close>: the futures arrive in the
  order of their completion, \<open>future.result()\<close> raises again what the fetch raised, and
  \<open>pl.concat\<close> adds the batch below the rows merged so far.
\<close>

fun merge_completed ::
  "(py_error + 'r raw_frame) list \<Rightarrow> 'r raw_frame \<Rightarrow> py_error + 'r raw_frame" where
  "merge_completed [] recent_df = Inr recent_df"
| "merge_completed (Inl e # futures) recent_df = Inl e"
| "merge_completed (Inr mth_df # futures) recent_df =
     and_then (pl_concat recent_df mth_df) (merge_completed futures)"

text \<open>
  Lines 49 to 56: \<open>recent_df\<close> starts as \<open>pl.DataFrame()\<close>, every period of the window
  is submitted, and the results are merged in the order \<open>completed\<close> in which the fetches
  finish (any order of the periods).
\<close>

definition fetch_recent ::
  "(string \<Rightarrow> 'r http_result) \<Rightarrow> string list \<Rightarrow> py_error + 'r raw_frame" where
  "fetch_recent requests_get completed =
     merge_completed (map (fetch_data_for_period requests_get) completed) empty_frame"

section \<open>Data frames\<close>

text \<open>
  A row of the table holds the eleven columns of \<open>table_cols\<close> and the two columns
  that \<open>df_filter\<close> adds. The numeric columns are compared only, never computed with,
  so they are real numbers.
\<close>

record row =
  month :: string
  town :: string
  flat :: string
  street_name :: string
  storey_range :: string
  lease_left :: string
  area_sqm :: real
  area_sqft :: real
  price_sqm :: real
  price_sqft :: real
  price :: real
  year_count :: int
  mth_count :: "string option"

text \<open>
  A data frame is its column names and its rows. Only the columns named in \<open>columns\<close>
  belong to the frame: an expression over another column raises, and the fields of a
  row that are not named there are not part of the frame (a frame without the column
  \<open>year_count\<close> says nothing about the field \<open>year_count\<close> of its rows).
\<close>

record dataframe =
  columns :: "string list"
  rows :: "row list"

text \<open>Lines 12 to 14: the columns of the table that the normalizer leaves (line 83).\<close>

definition table_cols :: "string list" where
  "table_cols =
     [''month'', ''town'', ''flat'', ''street_name'', ''storey_range'', ''lease_left'',
      ''area_sqm'', ''area_sqft'', ''price_sqm'', ''price_sqft'', ''price'']"

text \<open>The five numeric columns that a price or area choice can name.\<close>

datatype num_col = Price | Price_sqm | Price_sqft | Area_sqm | Area_sqft

fun col_name :: "num_col \<Rightarrow> string" where
  "col_name Price = ''price''"
| "col_name Price_sqm = ''price_sqm''"
| "col_name Price_sqft = ''price_sqft''"
| "col_name Area_sqm = ''area_sqm''"
| "col_name Area_sqft = ''area_sqft''"

fun col_val :: "num_col \<Rightarrow> row \<Rightarrow> real" where
  "col_val Price r = price r"
| "col_val Price_sqm r = price_sqm r"
| "col_val Price_sqft r = price_sqft r"
| "col_val Area_sqm r = area_sqm r"
| "col_val Area_sqft r = area_sqft r"

definition has_columns :: "string list \<Rightarrow> dataframe \<Rightarrow> bool" where
  "has_columns names df = list_all (\<lambda>c. c \<in> set (columns df)) names"

text \<open>
  \<open>df.filter(predicate)\<close>, for a predicate over the columns \<open>names\<close>: the rows that
  satisfy it, or ColumnNotFoundError when the frame lacks one of the columns.
\<close>

definition pl_filter ::
  "string list \<Rightarrow> (row \<Rightarrow> bool) \<Rightarrow> dataframe \<Rightarrow> py_error + dataframe" where
  "pl_filter names p df =
     (if has_columns names df then Inr (df\<lparr>rows := filter p (rows df)\<rparr>)
      else Inl ColumnNotFoundError)"

text \<open>\<open>df.drop(names)\<close>: the library checks that the frame has every dropped column.\<close>

definition pl_drop :: "string list \<Rightarrow> dataframe \<Rightarrow> py_error + dataframe" where
  "pl_drop names df =
     (if has_columns names df
      then Inr (df\<lparr>columns := filter (\<lambda>c. c \<notin> set names) (columns df)\<rparr>)
      else Inl ColumnNotFoundError)"

text \<open>
  \<open>str.contains(pattern)\<close> reads its pattern as a regular expression. The model covers
  the patterns that the page documents (street names separated by \<open>|\<close>): the pattern is
  a list of alternatives, and a text matches when one of them occurs in it. The other
  operators of regular expressions are not modelled: \<open>plain_alternatives\<close> holds for
  the patterns without them.
\<close>

fun split_on :: "char \<Rightarrow> string \<Rightarrow> string list" where
  "split_on c [] = [[]]"
| "split_on c (x # xs) =
     (if x = c then [] # split_on c xs
      else (case split_on c xs of [] \<Rightarrow> [[x]] | y # ys \<Rightarrow> (x # y) # ys))"

definition str_contains :: "string \<Rightarrow> string \<Rightarrow> bool" where
  "str_contains pattern s = list_ex (\<lambda>alternative. sublist alternative s) (split_on CHR ''|'' pattern)"

definition plain_alternatives :: "string \<Rightarrow> bool" where
  "plain_alternatives pattern =
     list_all (\<lambda>c. c \<notin> set (CHR 0x5C # ''.+*?()[]{}^$'')) pattern"

text \<open>
  \<open>str.split_exact("y", 1)\<close>: the text before the first \<open>y\<close>, and the text between the
  first \<open>y\<close> and the second (or the end); the second field is null when the text has no
  \<open>y\<close>.
\<close>

definition split_exact_y :: "string \<Rightarrow> string \<times> string option" where
  "split_exact_y s =
     (takeWhile (\<lambda>c. c \<noteq> CHR ''y'') s,
      case dropWhile (\<lambda>c. c \<noteq> CHR ''y'') s of
        [] \<Rightarrow> None
      | _ # rest \<Rightarrow> Some (takeWhile (\<lambda>c. c \<noteq> CHR ''y'') rest))"

text \<open>
  \<open>cast(pl.Int32)\<close> of a text: an optional sign (minus or plus) and decimal digits,
  within the range of 32 bits; \<open>None\<close> for a text the strict cast refuses.
\<close>

definition digit_val :: "char \<Rightarrow> nat" where
  "digit_val c =
     (case map_of (zip ''0123456789'' [0, 1, 2, 3, 4, 5, 6, 7, 8, 9]) c of
        Some d \<Rightarrow> d
      | None \<Rightarrow> 0)"

definition parse_nat :: "string \<Rightarrow> nat" where
  "parse_nat ds = foldl (\<lambda>n c. 10 * n + digit_val c) 0 ds"

definition cast_int32 :: "string \<Rightarrow> int option" where
  "cast_int32 s =
     (let negative = (case s of [] \<Rightarrow> False | c # _ \<Rightarrow> c = CHR ''-'');
          signed = (case s of [] \<Rightarrow> False | c # _ \<Rightarrow> c = CHR ''-'' \<or> c = CHR ''+'');
          ds = (if signed then tl s else s);
          v = (if negative then - int (parse_nat ds) else int (parse_nat ds))
      in if ds \<noteq> [] \<and> list_all is_digit ds \<and> - 2147483648 \<le> v \<and> v \<le> 2147483647
         then Some v else None)"

text \<open>
  Lines 185 to 192: the two fields of the split become the columns \<open>year_count\<close> and
  \<open>mth_count\<close>, and \<open>year_count\<close> is cast to an integer. A frame cannot hold two
  columns of one name: \<open>unnest\<close> raises DuplicateError when one of the two columns is
  there already. The strict cast raises when one text of the column is not an integer.
\<close>

definition with_lease_fields :: "row \<Rightarrow> row option" where
  "with_lease_fields r =
     (case cast_int32 (fst (split_exact_y (lease_left r))) of
        None \<Rightarrow> None
      | Some n \<Rightarrow> Some (r\<lparr>year_count := n, mth_count := snd (split_exact_y (lease_left r))\<rparr>))"

definition lease_fields :: "dataframe \<Rightarrow> py_error + dataframe" where
  "lease_fields df =
     (if \<not> has_columns [''lease_left''] df then Inl ColumnNotFoundError
      else if ''year_count'' \<in> set (columns df) \<or> ''mth_count'' \<in> set (columns df)
      then Inl DuplicateError
      else (case those (map with_lease_fields (rows df)) of
              None \<Rightarrow> Inl InvalidOperationError
            | Some rs \<Rightarrow>
                Inr \<lparr>columns = columns df @ [''year_count'', ''mth_count''], rows = rs\<rparr>))"

text \<open>
  \<open>if value:\<close> for an optional number and for an optional text: the step runs when
  the value is there and is neither zero nor the empty text.
\<close>

definition if_truthy ::
  "'a::zero option \<Rightarrow> ('a \<Rightarrow> dataframe \<Rightarrow> py_error + dataframe) \<Rightarrow> dataframe
     \<Rightarrow> py_error + dataframe" where
  "if_truthy v step df =
     (case v of None \<Rightarrow> Inr df | Some x \<Rightarrow> if x = 0 then Inr df else step x df)"

definition if_text ::
  "string option \<Rightarrow> (string \<Rightarrow> dataframe \<Rightarrow> py_error + dataframe) \<Rightarrow> dataframe
     \<Rightarrow> py_error + dataframe" where
  "if_text v step df =
     (case v of None \<Rightarrow> Inr df | Some s \<Rightarrow> if s = [] then Inr df else step s df)"

section \<open>The derived metrics of the normalizer\<close>




section \<open>The filter\<close>

text \<open>Lines 118 to 135.\<close>

definition convert_price_area :: "string \<Rightarrow> string \<Rightarrow> num_col \<times> num_col" where
  "convert_price_area price_type area_type =
     (let area_type' = (if area_type = ''Sq M'' then Area_sqm else Area_sqft);
          price_type' =
            (if price_type = ''Price'' then Price
             else if area_type' = Area_sqm then Price_sqm else Price_sqft)
      in (price_type', area_type'))"

text \<open>
  The arguments of \<open>df_filter\<close> that come from the page: the numbers and the text are
  \<open>None\<close> when the input is empty. The parameters \<open>yr\<close> and \<open>mth\<close> are not used by the
  function; \<open>selected_mths\<close> is given as the list of its month texts (\<open>%Y-%m\<close>), and
  \<open>data_json\<close> as the table whose text it is. The lease bounds are whole numbers, which
  \<open>int()\<close> leaves as they are.
\<close>

record filter_args =
  arg_month :: int
  arg_town :: string
  arg_flat :: "string list"
  arg_area_type :: string
  arg_max_area :: "real option"
  arg_min_area :: "real option"
  arg_price_type :: string
  arg_max_price :: "real option"
  arg_min_price :: "real option"
  arg_min_lease :: "int option"
  arg_max_lease :: "int option"
  arg_street_name :: "string option"

text \<open>
  Line 174, \<open>pl.DataFrame(json.loads(data_json))\<close>. The text \<open>data_json\<close> is what
  \<open>write_json\<close> gives for the table (line 230): the list of its rows, each row with its
  columns. The frame read back has the columns of its rows; the text of a table without
  rows is the empty list, and the frame read back from it has no columns.
\<close>

definition read_data_json :: "dataframe \<Rightarrow> dataframe" where
  "read_data_json data = (if rows data = [] then \<lparr>columns = [], rows = []\<rparr> else data)"

text \<open>
  Lines 168 to 223. Each \<open>df = df.filter(...)\<close> is one step of the chain; the step of
  \<open>max_area\<close> (line 218) evaluates its filter and keeps the frame it had.
\<close>

definition df_filter :: "filter_args \<Rightarrow> string list \<Rightarrow> dataframe \<Rightarrow> py_error + dataframe" where
  "df_filter a selected_mths data =
     (let selected = py_slice_from (- arg_month a) selected_mths;
          price_type = fst (convert_price_area (arg_price_type a) (arg_area_type a));
          area_type = snd (convert_price_area (arg_price_type a) (arg_area_type a))
      in
      and_then (pl_filter [''month'', ''flat'']
                  (\<lambda>r. month r \<in> set selected \<and> flat r \<in> set (arg_flat a))
                  (read_data_json data)) (\<lambda>df.
      and_then (if_text (arg_street_name a)
                  (\<lambda>s. pl_filter [''street_name'']
                     (\<lambda>r. str_contains (upper s) (street_name r))) df) (\<lambda>df.
      and_then (lease_fields df) (\<lambda>df.
      and_then (if_truthy (arg_max_lease a)
                  (\<lambda>m. pl_filter [''year_count''] (\<lambda>r. m \<le> year_count r)) df) (\<lambda>df.
      and_then (if_truthy (arg_min_lease a)
                  (\<lambda>m. pl_filter [''year_count''] (\<lambda>r. m \<le> year_count r)) df) (\<lambda>df.
      and_then (if area_type = Area_sqft then pl_drop [''price_sqm'', ''area_sqm''] df
                else pl_drop [''price_sqft'', ''area_sqft''] df) (\<lambda>df.
      and_then (if arg_town a \<noteq> ''All''
                then pl_filter [''town''] (\<lambda>r. town r = arg_town a) df
                else Inr df) (\<lambda>df.
      and_then (if_truthy (arg_max_price a)
                  (\<lambda>m. pl_filter [col_name price_type] (\<lambda>r. col_val price_type r \<le> m)) df) (\<lambda>df.
      and_then (if_truthy (arg_min_price a)
                  (\<lambda>m. pl_filter [col_name price_type] (\<lambda>r. m \<le> col_val price_type r)) df) (\<lambda>df.
      and_then (if_truthy (arg_max_area a)
                  (\<lambda>m d. and_then
                     (pl_filter [col_name area_type] (\<lambda>r. col_val area_type r \<le> m) d)
                     (\<lambda>discarded. Inr d)) df) (\<lambda>df.
      if_truthy (arg_min_area a)
        (\<lambda>m. pl_filter [col_name area_type] (\<lambda>r. m \<le> col_val area_type r)) df)))))))))))"

section \<open>The summary\<close>

text \<open>The numbers that \<open>update_text\<close> writes into its text.\<close>

record summary =
  price_min :: real
  price_max :: real
  area_min :: real
  area_max :: real
  records :: nat

text \<open>\<open>df.select(name).to_series()\<close>, and the built-in \<open>min\<close> and \<open>max\<close> over a series.\<close>

definition select_series :: "num_col \<Rightarrow> dataframe \<Rightarrow> py_error + real list" where
  "select_series c df =
     (if has_columns [col_name c] df then Inr (map (col_val c) (rows df))
      else Inl ColumnNotFoundError)"

definition py_min :: "real list \<Rightarrow> py_error + real" where
  "py_min xs = (case xs of [] \<Rightarrow> Inl ValueError | x # rest \<Rightarrow> Inr (fold min rest x))"

definition py_max :: "real list \<Rightarrow> py_error + real" where
  "py_max xs = (case xs of [] \<Rightarrow> Inl ValueError | x # rest \<Rightarrow> Inr (fold max rest x))"

text \<open>The four assignments of a branch of \<open>update_text\<close> that is written as meant.\<close>

definition min_max_of :: "num_col \<Rightarrow> num_col \<Rightarrow> dataframe \<Rightarrow> py_error + summary option" where
  "min_max_of price_col area_col df =
     and_then (and_then (select_series price_col df) py_min) (\<lambda>pmin.
     and_then (and_then (select_series price_col df) py_max) (\<lambda>pmax.
     and_then (and_then (select_series area_col df) py_min) (\<lambda>amin.
     and_then (and_then (select_series area_col df) py_max) (\<lambda>amax.
     Inr (Some \<lparr>price_min = pmin, price_max = pmax, area_min = amin, area_max = amax,
                records = length (rows df)\<rparr>)))))"

text \<open>
  Lines 557 to 613; the result is \<open>None\<close> for the text of a search without results. The
  parameters \<open>town\<close>, \<open>max_lease\<close> and \<open>min_lease\<close> are only written into the text. In
  the third branch, line 580 calls \<open>to_serise()\<close>, which a frame does not have: the
  attribute lookup raises after \<open>df.select("price_sqm")\<close> has run. When no branch is
  taken, the text reads \<open>price_min\<close> before it is assigned.
\<close>

definition update_text :: "dataframe \<Rightarrow> string \<Rightarrow> string \<Rightarrow> py_error + summary option" where
  "update_text df area_type price_type =
     (if length (rows df) > 0 then
        (if price_type = ''Price'' \<and> area_type = ''Sq M'' then min_max_of Price Area_sqm df
         else if price_type = ''Price'' \<and> area_type = ''Sq Feet''
           then min_max_of Price Area_sqft df
         else if price_type = ''Price / Area'' \<and> area_type = ''Sq M''
           then and_then (and_then (select_series Price_sqm df) py_min) (\<lambda>pmin.
                and_then (select_series Price_sqm df) (\<lambda>selected. Inl AttributeError))
         else if price_type = ''Price / Area'' \<and> area_type = ''Sq Feet''
           then min_max_of Price_sqft Area_sqft df
         else Inl UnboundLocalError)
      else Inr None)"

section \<open>The rows that the filter keeps\<close>

text \<open>
  The steps of \<open>df_filter\<close> read as predicates over one row, for the proofs: the steps
  before the lease columns are added (\<open>early_pred\<close>), the steps after (\<open>late_pred\<close>), and
  the columns of the view (\<open>view_cols\<close>). The lemma \<open>df_filter_canonical\<close> proves that
  \<open>df_filter\<close> computes what they say on a table with the columns \<open>table_cols\<close>.
\<close>

definition street_pred :: "string option \<Rightarrow> row \<Rightarrow> bool" where
  "street_pred v =
     (\<lambda>r. case v of None \<Rightarrow> True | Some s \<Rightarrow> s = [] \<or> str_contains (upper s) (street_name r))"

definition bound_pred :: "'a::zero option \<Rightarrow> ('a \<Rightarrow> row \<Rightarrow> bool) \<Rightarrow> row \<Rightarrow> bool" where
  "bound_pred v p = (\<lambda>r. case v of None \<Rightarrow> True | Some m \<Rightarrow> m = 0 \<or> p m r)"

definition early_pred :: "filter_args \<Rightarrow> string list \<Rightarrow> row \<Rightarrow> bool" where
  "early_pred a selected_mths =
     (\<lambda>r. (month r \<in> set (py_slice_from (- arg_month a) selected_mths) \<and> flat r \<in> set (arg_flat a))
      \<and> street_pred (arg_street_name a) r)"

definition late_pred :: "filter_args \<Rightarrow> row \<Rightarrow> bool" where
  "late_pred a =
     (\<lambda>r. let price_type = fst (convert_price_area (arg_price_type a) (arg_area_type a));
          area_type = snd (convert_price_area (arg_price_type a) (arg_area_type a))
      in bound_pred (arg_max_lease a) (\<lambda>m r. m \<le> year_count r) r
       \<and> bound_pred (arg_min_lease a) (\<lambda>m r. m \<le> year_count r) r
       \<and> (arg_town a = ''All'' \<or> town r = arg_town a)
       \<and> bound_pred (arg_max_price a) (\<lambda>m r. col_val price_type r \<le> m) r
       \<and> bound_pred (arg_min_price a) (\<lambda>m r. m \<le> col_val price_type r) r
       \<and> bound_pred (arg_min_area a) (\<lambda>m r. m \<le> col_val area_type r) r)"

definition view_cols :: "filter_args \<Rightarrow> string list" where
  "view_cols a =
     filter (\<lambda>c. c \<notin> set (if snd (convert_price_area (arg_price_type a) (arg_area_type a)) = Area_sqft
                          then [''price_sqm'', ''area_sqm''] else [''price_sqft'', ''area_sqft'']))
       (table_cols @ [''year_count'', ''mth_count''])"

text \<open>
  The street text of a search is in the part of the patterns that \<open>str_contains\<close>
  models: it is absent, or it has no operator of regular expressions but \<open>|\<close>.
\<close>

definition plain_street :: "filter_args \<Rightarrow> bool" where
  "plain_street a =
     (case arg_street_name a of None \<Rightarrow> True | Some s \<Rightarrow> plain_alternatives (upper s))"

text \<open>
  A row of the table matches a search when it passes the month, flat and street steps,
  its lease text is a number, and the row with its lease columns passes the lease, town,
  price and area steps.
\<close>

definition row_matches :: "filter_args \<Rightarrow> string list \<Rightarrow> row \<Rightarrow> bool" where
  "row_matches a selected_mths r =
     (early_pred a selected_mths r \<and>
      (case with_lease_fields r of None \<Rightarrow> False | Some r' \<Rightarrow> late_pred a r'))"

text \<open>
  The containment test in the words of the specification for the street filter (C6):
  the text, case ignored, contains the substring, case ignored.
\<close>

definition spec_street_contains :: "string \<Rightarrow> string \<Rightarrow> bool" where
  "spec_street_contains substring s = sublist (upper substring) (upper s)"

section \<open>Examples\<close>

text \<open>
  A table of three transactions and a search over six months for the flat type 4RM; the
  fields \<open>year_count\<close> and \<open>mth_count\<close> of a row of the table are not columns of the
  table. \<open>example_view\<close> is what the search returns.
\<close>

definition bedok_4rm :: row where
  "bedok_4rm =
     \<lparr>month = ''2024-06'', town = ''BEDOK'', flat = ''4RM'',
      street_name = ''BLK 1 BEDOK NTH RD'', storey_range = ''04-06'', lease_left = ''61y 04ms'',
      area_sqm = 90, area_sqft = 968.751, price_sqm = 5555.56, price_sqft = 516.13,
      price = 500000, year_count = 0, mth_count = None\<rparr>"

definition bedok_3rm :: row where
  "bedok_3rm =
     \<lparr>month = ''2024-06'', town = ''BEDOK'', flat = ''3RM'',
      street_name = ''BLK 2 CHAI CHEE ST'', storey_range = ''01-03'', lease_left = ''55y'',
      area_sqm = 65, area_sqft = 699.6535, price_sqm = 4615.38, price_sqft = 428.78,
      price = 300000, year_count = 0, mth_count = None\<rparr>"

definition queenstown_4rm :: row where
  "queenstown_4rm =
     \<lparr>month = ''2024-05'', town = ''QUEENSTOWN'', flat = ''4RM'',
      street_name = ''BLK 3 MEI LING ST'', storey_range = ''10-12'', lease_left = ''90y 01m'',
      area_sqm = 95, area_sqft = 1022.5705, price_sqm = 6315.79, price_sqft = 586.76,
      price = 600000, year_count = 0, mth_count = None\<rparr>"

definition example_table :: dataframe where
  "example_table = \<lparr>columns = table_cols, rows = [bedok_4rm, bedok_3rm, queenstown_4rm]\<rparr>"

definition example_mths :: "string list" where
  "example_mths = [''2024-01'', ''2024-02'', ''2024-03'', ''2024-04'', ''2024-05'', ''2024-06'']"

definition example_args :: filter_args where
  "example_args =
     \<lparr>arg_month = 6, arg_town = ''All'', arg_flat = [''4RM''], arg_area_type = ''Sq M'',
      arg_max_area = None, arg_min_area = None, arg_price_type = ''Price'',
      arg_max_price = None, arg_min_price = None, arg_min_lease = None, arg_max_lease = None,
      arg_street_name = None\<rparr>"

definition example_view :: dataframe where
  "example_view =
     \<lparr>columns = [''month'', ''town'', ''flat'', ''street_name'', ''storey_range'', ''lease_left'',
                 ''area_sqm'', ''price_sqm'', ''price'', ''year_count'', ''mth_count''],
      rows = [bedok_4rm\<lparr>year_count := 61, mth_count := Some '' 04ms''\<rparr>,
              queenstown_4rm\<lparr>year_count := 90, mth_count := Some '' 01m''\<rparr>]\<rparr>"

definition example_view_all :: dataframe where
  "example_view_all =
     \<lparr>columns = [''month'', ''town'', ''flat'', ''street_name'', ''storey_range'', ''lease_left'',
                 ''area_sqm'', ''price_sqm'', ''price'', ''year_count'', ''mth_count''],
      rows = [bedok_4rm\<lparr>year_count := 61, mth_count := Some '' 04ms''\<rparr>,
              bedok_3rm\<lparr>year_count := 55, mth_count := Some ''''\<rparr>,
              queenstown_4rm\<lparr>year_count := 90, mth_count := Some '' 01m''\<rparr>]\<rparr>"

definition both_flats :: filter_args where
  "both_flats = example_args\<lparr>arg_flat := [''4RM'', ''3RM'']\<rparr>"

text \<open>A street name that is not in capitals.\<close>

definition jalan_3rm :: row where
  "jalan_3rm =
     \<lparr>month = ''2024-06'', town = ''KALLANG'', flat = ''3RM'',
      street_name = ''BLK 5 Jalan Besar'', storey_range = ''07-09'', lease_left = ''70y'',
      area_sqm = 70, area_sqft = 753.473, price_sqm = 5000, price_sqft = 464.52,
      price = 350000, year_count = 0, mth_count = None\<rparr>"

definition jalan_table :: dataframe where
  "jalan_table = \<lparr>columns = table_cols, rows = [jalan_3rm]\<rparr>"

text \<open>One period whose transport fails, one with a response that is no success.\<close>

definition failing_get :: "string \<Rightarrow> nat http_result" where
  "failing_get period =
     (if period = ''2024-05'' then TransportFailure
      else if period = ''2024-04'' then Response 503 None
      else Response 200 (Some [1, 2]))"

lemmas example_defs = example_table_def example_mths_def example_args_def example_view_def
  bedok_4rm_def bedok_3rm_def queenstown_4rm_def example_view_all_def both_flats_def
  jalan_table_def jalan_3rm_def

lemmas eval_defs = df_filter_def pl_filter_def pl_drop_def has_columns_def table_cols_def
  lease_fields_def with_lease_fields_def split_exact_y_def cast_int32_def parse_nat_def
  digit_val_def is_digit_def if_truthy_def if_text_def convert_price_area_def py_slice_from_def
  read_data_json_def
  str_contains_def upper_def upper_char_def sublist_code Let_def

section \<open>Sequencing\<close>

lemma and_then_Inr [simp]: "and_then (Inr v) f = f v"
  by (simp add: and_then_def)

lemma and_then_Inl [simp]: "and_then (Inl e) f = Inl e"
  by (simp add: and_then_def)

lemma and_then_assoc: "and_then (and_then x f) g = and_then x (\<lambda>v. and_then (f v) g)"
  by (cases x) simp_all

section \<open>The lease string of the normalizer (C1)\<close>

text \<open>
  A replacement skips the text before the first place where the pattern can start.
\<close>

lemma str_replace_skip:
  "p \<notin> set xs \<Longrightarrow> str_replace (p # ps) val (xs @ ys) = xs @ str_replace (p # ps) val ys"
proof (induction xs)
  case Nil
  show ?case by simp
next
  case (Cons a xs)
  then have "a \<noteq> p" and "p \<notin> set xs" by auto
  then show ?case using Cons.IH by simp
qed

lemma str_replace_absent: "p \<notin> set s \<Longrightarrow> str_replace (p # ps) val s = s"
  using str_replace_skip [of p s ps val "[]"] by simp

lemma not_digit_notin: "list_all is_digit N \<Longrightarrow> \<not> is_digit c \<Longrightarrow> c \<notin> set N"
  by (simp add: list_all_iff) blast

lemma not_digit_chars:
  "\<not> is_digit (CHR ''s'')" "\<not> is_digit (CHR '' '')" "\<not> is_digit (CHR ''m'')"
  by (simp_all add: is_digit_def)

lemma lease_mths_years:
  assumes N: "list_all is_digit N"
  shows "lease_mths (N @ '' years'') = N @ ''y''"
proof -
  have s: "CHR ''s'' \<notin> set (N @ '' year'')"
    using not_digit_notin [OF N not_digit_chars(1)] by simp
  have sp: "CHR '' '' \<notin> set N"
    by (rule not_digit_notin [OF N not_digit_chars(2)])
  have "str_replace ''s'' '''' ((N @ '' year'') @ ''s'') = (N @ '' year'') @ str_replace ''s'' '''' ''s''"
    by (rule str_replace_skip [OF s])
  then have 1: "str_replace ''s'' '''' (N @ '' years'') = N @ '' year''"
    by simp
  have "str_replace '' year'' ''y'' (N @ '' year'') = N @ str_replace '' year'' ''y'' '' year''"
    by (rule str_replace_skip [OF sp])
  then have 2: "str_replace '' year'' ''y'' (N @ '' year'') = N @ ''y''"
    by simp
  have 3: "str_replace '' month'' ''m'' (N @ ''y'') = N @ ''y''"
    using sp by (intro str_replace_absent) simp
  show ?thesis
    by (simp only: lease_mths_def 1 2 3)
qed

lemma lease_mths_years_months:
  assumes N: "list_all is_digit N" and M: "list_all is_digit M" and ne: "M \<noteq> []"
  shows "lease_mths (N @ '' years '' @ M @ '' months'') = N @ ''y '' @ M @ ''ms''"
proof -
  obtain d ds where Md: "M = d # ds"
    using ne by (cases M) auto
  have "is_digit d"
    using M by (simp add: Md)
  then have dm: "d \<noteq> CHR ''m''"
    using not_digit_chars(3) by auto
  have s: "CHR ''s'' \<notin> set (N @ '' year'')"
    using not_digit_notin [OF N not_digit_chars(1)] by simp
  have spN: "CHR '' '' \<notin> set N"
    by (rule not_digit_notin [OF N not_digit_chars(2)])
  have spM: "CHR '' '' \<notin> set M"
    by (rule not_digit_notin [OF M not_digit_chars(2)])
  have y: "CHR '' '' \<notin> set (N @ ''y'')"
    using spN by simp
  have "str_replace ''s'' '''' ((N @ '' year'') @ ''s '' @ M @ '' months'')
          = (N @ '' year'') @ str_replace ''s'' '''' (''s '' @ M @ '' months'')"
    by (rule str_replace_skip [OF s])
  then have 1: "str_replace ''s'' '''' (N @ '' years '' @ M @ '' months'')
                  = N @ '' year '' @ M @ '' months''"
    by simp
  have "str_replace '' year'' ''y'' (N @ '' year '' @ M @ '' months'')
          = N @ str_replace '' year'' ''y'' ('' year '' @ M @ '' months'')"
    by (rule str_replace_skip [OF spN])
  then have 2: "str_replace '' year'' ''y'' (N @ '' year '' @ M @ '' months'')
                  = N @ ''y '' @ M @ '' months''"
    by simp
  have "str_replace '' month'' ''m'' (M @ '' months'')
          = M @ str_replace '' month'' ''m'' '' months''"
    by (rule str_replace_skip [OF spM])
  then have m: "str_replace '' month'' ''m'' (M @ '' months'') = M @ ''ms''"
    by simp
  have "str_replace '' month'' ''m'' ('' '' @ M @ '' months'')
          = '' '' @ str_replace '' month'' ''m'' (M @ '' months'')"
    using dm by (simp add: Md)
  then have sm: "str_replace '' month'' ''m'' ('' '' @ M @ '' months'') = '' '' @ M @ ''ms''"
    by (simp only: m)
  have "str_replace '' month'' ''m'' (N @ ''y '' @ M @ '' months'')
          = str_replace '' month'' ''m'' ((N @ ''y'') @ '' '' @ M @ '' months'')"
    by simp
  also have "\<dots> = (N @ ''y'') @ str_replace '' month'' ''m'' ('' '' @ M @ '' months'')"
    by (rule str_replace_skip [OF y])
  also have "\<dots> = (N @ ''y'') @ '' '' @ M @ ''ms''"
    by (simp only: sm)
  also have "\<dots> = N @ ''y '' @ M @ ''ms''"
    by simp
  finally have 3: "str_replace '' month'' ''m'' (N @ ''y '' @ M @ '' months'')
                  = N @ ''y '' @ M @ ''ms''" .
  show ?thesis
    by (simp only: lease_mths_def 1 2 3)
qed

text \<open>
  C1, as the code has it. Each of the three replacements acts on the first match only,
  and none of them removes the blank between the two parts. For digits \<open>N\<close>, the text
  "N years" becomes "Ny"; for digits \<open>N\<close> and \<open>M\<close>, the text "N years M months" becomes
  a text that starts with "Ny Mm": the blank is kept. What follows the "m" is left open
  here; \<open>lease_mths_years_months\<close> gives the whole text.
\<close>

theorem lease_mths_compact:
  assumes "list_all is_digit N" and "list_all is_digit M" and "M \<noteq> []"
  shows "lease_mths (N @ '' years'') = N @ ''y'' \<and>
         prefix (N @ ''y '' @ M @ ''m'') (lease_mths (N @ '' years '' @ M @ '' months''))"
proof -
  have "prefix (N @ ''y '' @ M @ ''m'') ((N @ ''y '' @ M @ ''m'') @ ''s'')"
    by (rule prefixI) simp
  then show ?thesis
    using lease_mths_years [OF assms(1)] lease_mths_years_months [OF assms] by simp
qed

text \<open>The theorem of C1 at the two inputs that the specification names.\<close>

theorem lease_mths_compact_witness:
  "lease_mths ''61 years'' = ''61y'' \<and> prefix ''61y 4m'' (lease_mths ''61 years 4 months'')"
  using lease_mths_compact [of "''61''" "''4''"] by (simp add: is_digit_def)

text \<open>
  C1 as stated fails: "61 years 4 months" does not become "61y4m". The first "s" of
  the text is the one of "years", so the "s" of "months" stays, and the blank stays.
\<close>

theorem lease_mths_known_input:
  "lease_mths ''61 years 4 months'' = ''61y 4ms'' \<and> lease_mths ''61 years 4 months'' \<noteq> ''61y4m''"
  by (simp add: lease_mths_def)

section \<open>Fetching and merging (C2)\<close>

text \<open>
  C2 fails on the code. A fetch whose response has the status 503 returns the frame
  without columns of line 46. When that period completes first, the merge goes on and
  the rows of the other period are kept; when it completes after a period with records,
  \<open>pl.concat\<close> raises ShapeError and the run ends without a table. When the transport
  of a period fails, the fetch returns no batch and the exception leaves the loop.
\<close>

theorem fetch_failure_ends_run:
  "fetch_data_for_period failing_get ''2024-04'' = Inr empty_frame \<and>
   fetch_recent failing_get [''2024-04'', ''2024-03'']
     = Inr \<lparr>raw_columns = df_cols, raw_rows = [1, 2]\<rparr> \<and>
   fetch_recent failing_get [''2024-03'', ''2024-04''] = Inl ShapeError \<and>
   fetch_data_for_period failing_get ''2024-05'' = Inl ConnectionError \<and>
   fetch_recent failing_get [''2024-03'', ''2024-05''] = Inl ConnectionError"
  by (simp add: fetch_recent_def fetch_data_for_period_def failing_get_def pl_concat_def
      frame_of_records_def empty_frame_def df_cols_def)

section \<open>The filter on a table with the columns of the normalizer\<close>

lemma has_columns_rows [simp]: "has_columns names (df\<lparr>rows := rs\<rparr>) = has_columns names df"
  by (simp add: has_columns_def)

lemma pl_filter_ok:
  "has_columns names df \<Longrightarrow> pl_filter names p df = Inr (df\<lparr>rows := filter p (rows df)\<rparr>)"
  by (simp add: pl_filter_def)

lemma if_truthy_filter:
  "has_columns names df \<Longrightarrow>
     if_truthy v (\<lambda>m. pl_filter names (p m)) df
       = Inr (df\<lparr>rows := filter (bound_pred v p) (rows df)\<rparr>)"
  by (cases v) (simp_all add: if_truthy_def pl_filter_def bound_pred_def)

lemma if_truthy_discard:
  "has_columns names df \<Longrightarrow>
     if_truthy v (\<lambda>m d. and_then (pl_filter names (p m) d) (\<lambda>discarded. Inr d)) df = Inr df"
  by (cases v) (simp_all add: if_truthy_def pl_filter_def)

lemma if_text_filter:
  "has_columns [''street_name''] df \<Longrightarrow>
     if_text v (\<lambda>s. pl_filter [''street_name''] (\<lambda>r. str_contains (upper s) (street_name r))) df
       = Inr (df\<lparr>rows := filter (street_pred v) (rows df)\<rparr>)"
  by (cases v) (simp_all add: if_text_def pl_filter_def street_pred_def)

text \<open>
  A table without rows is read back without columns, and the first step raises. On a
  table with rows and the columns \<open>table_cols\<close> no step lacks a column: the filter raises
  only when the lease text of a row that passed the month, flat and street steps is not
  a number; else it returns the view of the rows that pass every step.
\<close>

lemma df_filter_no_rows:
  assumes "rows data = []"
  shows "df_filter a selected_mths data = Inl ColumnNotFoundError"
  using assms
  by (simp add: df_filter_def Let_def read_data_json_def pl_filter_def has_columns_def)

lemma df_filter_canonical:
  assumes "columns data = table_cols" and "rows data \<noteq> []"
  shows "df_filter a selected_mths data =
     (case those (map with_lease_fields (filter (early_pred a selected_mths) (rows data))) of
        None \<Rightarrow> Inl InvalidOperationError
      | Some rs \<Rightarrow> Inr \<lparr>columns = view_cols a, rows = filter (late_pred a) rs\<rparr>)"
proof -
  note steps = df_filter_def Let_def convert_price_area_def pl_filter_ok if_truthy_filter
    if_truthy_discard if_text_filter lease_fields_def pl_drop_def has_columns_def
    table_cols_def assms view_cols_def late_pred_def early_pred_def read_data_json_def
  consider
      (a) "arg_area_type a = ''Sq M''" "arg_price_type a = ''Price''" "arg_town a = ''All''"
    | (b) "arg_area_type a = ''Sq M''" "arg_price_type a = ''Price''" "arg_town a \<noteq> ''All''"
    | (c) "arg_area_type a = ''Sq M''" "arg_price_type a \<noteq> ''Price''" "arg_town a = ''All''"
    | (d) "arg_area_type a = ''Sq M''" "arg_price_type a \<noteq> ''Price''" "arg_town a \<noteq> ''All''"
    | (e) "arg_area_type a \<noteq> ''Sq M''" "arg_price_type a = ''Price''" "arg_town a = ''All''"
    | (f) "arg_area_type a \<noteq> ''Sq M''" "arg_price_type a = ''Price''" "arg_town a \<noteq> ''All''"
    | (g) "arg_area_type a \<noteq> ''Sq M''" "arg_price_type a \<noteq> ''Price''" "arg_town a = ''All''"
    | (h) "arg_area_type a \<noteq> ''Sq M''" "arg_price_type a \<noteq> ''Price''" "arg_town a \<noteq> ''All''"
    by blast
  then show ?thesis
  proof cases
    case a
    then show ?thesis by (simp add: steps split: option.split)
  next
    case b
    then show ?thesis by (simp add: steps split: option.split)
  next
    case c
    then show ?thesis by (simp add: steps split: option.split)
  next
    case d
    then show ?thesis by (simp add: steps split: option.split)
  next
    case e
    then show ?thesis by (simp add: steps split: option.split)
  next
    case f
    then show ?thesis by (simp add: steps split: option.split)
  next
    case g
    then show ?thesis by (simp add: steps split: option.split)
  next
    case h
    then show ?thesis by (simp add: steps split: option.split)
  qed
qed

lemma df_filter_canonical_Inr:
  assumes "columns data = table_cols" and "df_filter a selected_mths data = Inr view"
  obtains rs where
    "those (map with_lease_fields (filter (early_pred a selected_mths) (rows data))) = Some rs"
    and "view = \<lparr>columns = view_cols a, rows = filter (late_pred a) rs\<rparr>"
    and "rows data \<noteq> []"
proof -
  have ne: "rows data \<noteq> []"
    using assms(2) df_filter_no_rows [of data a selected_mths] by auto
  show ?thesis
    using assms(2) that ne unfolding df_filter_canonical [OF assms(1) ne]
    by (auto split: option.splits)
qed

text \<open>The step that adds the lease columns changes no other column.\<close>

lemma with_lease_fields_keeps:
  assumes "with_lease_fields r = Some r'"
  shows "month r' = month r" "flat r' = flat r" "street_name r' = street_name r"
    "lease_left r' = lease_left r" "town r' = town r"
  using assms by (auto simp: with_lease_fields_def split: option.splits)

lemma with_lease_fields_again:
  assumes "with_lease_fields r = Some r'"
  shows "with_lease_fields r' = Some r'"
  using assms by (auto simp: with_lease_fields_def split: option.splits)

lemma those_map_filter:
  assumes "\<And>r r'. f r = Some r' \<Longrightarrow> P r' = P r"
  shows "those (map f xs) = Some ys \<Longrightarrow> those (map f (filter P xs)) = Some (filter P ys)"
proof (induction xs arbitrary: ys)
  case Nil
  then show ?case by simp
next
  case (Cons x xs)
  from Cons.prems obtain y zs where y: "f x = Some y" and zs: "those (map f xs) = Some zs"
    and ys: "ys = y # zs"
    by (auto split: option.splits)
  have "those (map f (filter P xs)) = Some (filter P zs)"
    by (rule Cons.IH [OF zs])
  then show ?case
    using y ys assms [OF y] by simp
qed

lemma those_map_fixed:
  assumes "those (map f xs) = Some ys" and "\<And>r r'. f r = Some r' \<Longrightarrow> f r' = Some r'"
  shows "map f ys = map Some ys"
  using assms(1)
proof (induction xs arbitrary: ys)
  case Nil
  then show ?case by simp
next
  case (Cons x xs)
  from Cons.prems obtain y zs where y: "f x = Some y" and zs: "those (map f xs) = Some zs"
    and ys: "ys = y # zs"
    by (auto split: option.splits)
  show ?case
    using Cons.IH [OF zs] assms(2) [OF y] ys by simp
qed

lemma those_map_Some_id: "those (map Some ys) = Some ys"
  by (induction ys) simp_all

lemma early_pred_keeps:
  assumes "with_lease_fields r = Some r'"
  shows "early_pred a selected_mths r' = early_pred a selected_mths r"
  by (simp add: early_pred_def street_pred_def with_lease_fields_keeps [OF assms]
      split: option.split)

section \<open>The lease bounds (C4)\<close>

text \<open>
  C4: when \<open>max_lease\<close> is set (a number other than 0, see C10), every row of the view
  has \<open>year_count \<ge> max_lease\<close>: line 195 compares with \<open>\<ge>\<close>, as line 198 does for
  \<open>min_lease\<close>, so the bound is a lower bound and no upper bound.
\<close>

theorem max_lease_lower_bound:
  assumes "columns data = table_cols"
    and "arg_max_lease a = Some m" and "m \<noteq> 0"
    and "df_filter a selected_mths data = Inr view"
  shows "\<forall>r \<in> set (rows view). m \<le> year_count r"
proof -
  obtain rs where "view = \<lparr>columns = view_cols a, rows = filter (late_pred a) rs\<rparr>"
    using assms(1,4) by (rule df_filter_canonical_Inr)
  then have "\<forall>r \<in> set (rows view). late_pred a r"
    by simp
  then show ?thesis
    using assms(2,3) by (simp add: late_pred_def bound_pred_def Let_def)
qed

text \<open>
  The theorem of C4 on the example, with both flat types and \<open>max_lease = 60\<close>: the row
  of 55 years is dropped, the rows of 61 and 90 years stay.
\<close>

theorem max_lease_lower_bound_witness:
  "columns example_table = table_cols \<and>
   arg_max_lease (both_flats\<lparr>arg_max_lease := Some 60\<rparr>) = Some 60 \<and>
   df_filter (both_flats\<lparr>arg_max_lease := Some 60\<rparr>) example_mths example_table
     = Inr example_view \<and>
   list_all (\<lambda>r. 60 \<le> year_count r) (rows example_view) \<and>
   map year_count (rows example_view) = [61, 90]"
proof -
  have c: "columns example_table = table_cols"
    by (simp add: example_table_def)
  have m: "arg_max_lease (both_flats\<lparr>arg_max_lease := Some 60\<rparr>) = Some 60"
    by simp
  have v: "df_filter (both_flats\<lparr>arg_max_lease := Some 60\<rparr>) example_mths example_table
             = Inr example_view"
    by (simp add: example_defs eval_defs)
  have "\<forall>r \<in> set (rows example_view). 60 \<le> year_count r"
    using max_lease_lower_bound [OF c m _ v] by simp
  then have "list_all (\<lambda>r. 60 \<le> year_count r) (rows example_view)"
    by (simp add: list_all_iff)
  moreover have "map year_count (rows example_view) = [61, 90]"
    by (simp add: example_defs)
  ultimately show ?thesis
    using c m v by simp
qed

section \<open>The area bounds (C5)\<close>

text \<open>
  C5: on a table with the columns of the normalizer, the filter with \<open>max_area\<close> set
  returns what it returns with \<open>max_area\<close> absent: line 218 evaluates the comparison and
  does not assign its result.
\<close>

theorem max_area_no_effect:
  assumes "columns data = table_cols"
  shows "df_filter (a\<lparr>arg_max_area := Some x\<rparr>) selected_mths data
           = df_filter (a\<lparr>arg_max_area := None\<rparr>) selected_mths data"
proof (cases "rows data = []")
  case True
  then show ?thesis
    by (simp add: df_filter_no_rows)
next
  case False
  show ?thesis
    by (simp add: df_filter_canonical [OF assms False] early_pred_def late_pred_def
        view_cols_def split: option.split)
qed

text \<open>
  The theorem of C5 on the example, with \<open>max_area = 50\<close>: the rows of 90 and 95 square
  metres stay in the view.
\<close>

theorem max_area_no_effect_witness:
  "columns example_table = table_cols \<and>
   df_filter (example_args\<lparr>arg_max_area := Some 50\<rparr>) example_mths example_table
     = df_filter (example_args\<lparr>arg_max_area := None\<rparr>) example_mths example_table \<and>
   df_filter (example_args\<lparr>arg_max_area := None\<rparr>) example_mths example_table = Inr example_view \<and>
   map area_sqm (rows example_view) = [90, 95]"
proof -
  have c: "columns example_table = table_cols"
    by (simp add: example_table_def)
  have "df_filter (example_args\<lparr>arg_max_area := None\<rparr>) example_mths example_table
          = Inr example_view"
    by (simp add: example_defs eval_defs)
  moreover have "map area_sqm (rows example_view) = [90, 95]"
    by (simp add: example_defs)
  ultimately show ?thesis
    using c max_area_no_effect [OF c, where a = example_args and x = 50
        and selected_mths = example_mths] by simp
qed

section \<open>The street filter (C6)\<close>

text \<open>
  C6, as the code has it: for a street text that is not empty and has no operator of
  regular expressions but \<open>|\<close>, the filter keeps exactly the rows that it keeps without
  the street text and whose \<open>street_name\<close>, as it is stored, contains one of the
  alternatives of the text in capitals. Only the text is put in capitals (line 183), and
  the alternatives are the parts of the text between \<open>|\<close>.
\<close>

theorem street_filter_alternatives:
  assumes "columns data = table_cols"
    and "s \<noteq> []" and "plain_alternatives (upper s)"
    and "df_filter (a\<lparr>arg_street_name := None\<rparr>) selected_mths data = Inr view"
  shows "df_filter (a\<lparr>arg_street_name := Some s\<rparr>) selected_mths data
           = Inr (view\<lparr>rows := filter (\<lambda>r. str_contains (upper s) (street_name r)) (rows view)\<rparr>)"
proof -
  let ?a0 = "a\<lparr>arg_street_name := None\<rparr>" and ?a1 = "a\<lparr>arg_street_name := Some s\<rparr>"
  let ?S = "\<lambda>r. str_contains (upper s) (street_name r)"
  obtain rs where
    rs: "those (map with_lease_fields (filter (early_pred ?a0 selected_mths) (rows data))) = Some rs"
    and view: "view = \<lparr>columns = view_cols ?a0, rows = filter (late_pred ?a0) rs\<rparr>"
    and ne: "rows data \<noteq> []"
    using assms(1,4) by (rule df_filter_canonical_Inr)
  have E: "filter (early_pred ?a1 selected_mths) (rows data)
             = filter ?S (filter (early_pred ?a0 selected_mths) (rows data))"
    using assms(2) by (simp add: early_pred_def street_pred_def)
  have "those (map with_lease_fields (filter ?S (filter (early_pred ?a0 selected_mths) (rows data))))
          = Some (filter ?S rs)"
    using rs by (rule those_map_filter [rotated]) (simp add: with_lease_fields_keeps)
  then have "those (map with_lease_fields (filter (early_pred ?a1 selected_mths) (rows data)))
          = Some (filter ?S rs)"
    by (simp only: E)
  moreover have "late_pred ?a1 = late_pred ?a0" and "view_cols ?a1 = view_cols ?a0"
    by (simp_all add: late_pred_def view_cols_def)
  moreover have "filter (late_pred ?a0) (filter ?S rs) = filter ?S (filter (late_pred ?a0) rs)"
    by (simp add: conj_commute)
  ultimately show ?thesis
    by (simp add: df_filter_canonical [OF assms(1) ne] view)
qed

text \<open>
  The theorem of C6 on the example, with both flat types and the street text
  "bedok|mei ling": of the three rows, the two of Bedok North Road and Mei Ling Street stay.
\<close>

theorem street_filter_alternatives_witness:
  "columns example_table = table_cols \<and>
   plain_alternatives (upper ''bedok|mei ling'') \<and>
   df_filter (both_flats\<lparr>arg_street_name := None\<rparr>) example_mths example_table
     = Inr example_view_all \<and>
   df_filter (both_flats\<lparr>arg_street_name := Some ''bedok|mei ling''\<rparr>) example_mths example_table
     = Inr example_view"
proof -
  have c: "columns example_table = table_cols"
    by (simp add: example_table_def)
  have s: "''bedok|mei ling'' \<noteq> []"
    by simp
  have p: "plain_alternatives (upper ''bedok|mei ling'')"
    by (simp add: plain_alternatives_def upper_def upper_char_def)
  have v: "df_filter (both_flats\<lparr>arg_street_name := None\<rparr>) example_mths example_table
             = Inr example_view_all"
    by (simp add: example_defs eval_defs)
  have "example_view_all\<lparr>rows := filter (\<lambda>r. str_contains (upper ''bedok|mei ling'') (street_name r))
          (rows example_view_all)\<rparr> = example_view"
    by (simp add: example_defs str_contains_def upper_def upper_char_def sublist_code)
  then show ?thesis
    using c p v street_filter_alternatives [OF c s p v] by simp
qed

text \<open>
  C6 as stated fails. With the street text "bedok|mei ling" the filter keeps two rows,
  and no street name contains that text, whatever the case. With the street text "jalan"
  the filter drops the row of "BLK 5 Jalan Besar", which contains the text when the case
  is ignored: the column is compared as it is stored.
\<close>

theorem street_filter_not_substring:
  "df_filter (both_flats\<lparr>arg_street_name := Some ''bedok|mei ling''\<rparr>) example_mths example_table
     = Inr example_view \<and>
   map street_name (rows example_view) = [''BLK 1 BEDOK NTH RD'', ''BLK 3 MEI LING ST''] \<and>
   \<not> spec_street_contains ''bedok|mei ling'' ''BLK 1 BEDOK NTH RD'' \<and>
   \<not> spec_street_contains ''bedok|mei ling'' ''BLK 3 MEI LING ST'' \<and>
   df_filter (both_flats\<lparr>arg_street_name := Some ''jalan''\<rparr>) example_mths jalan_table
     = Inr (example_view\<lparr>rows := []\<rparr>) \<and>
   street_name jalan_3rm = ''BLK 5 Jalan Besar'' \<and>
   spec_street_contains ''jalan'' ''BLK 5 Jalan Besar''"
  by (simp add: example_defs eval_defs spec_street_contains_def)

section \<open>Filtering again (C8)\<close>

text \<open>
  C8, as the code has it: when the view of a search has rows, the filter applied again,
  with the same arguments, to the rows of that view under the columns of the table (the
  view without \<open>year_count\<close> and \<open>mth_count\<close>, and with the columns of the other unit)
  returns the same view. The street text has no operator of regular expressions but \<open>|\<close>.
\<close>

theorem filter_again_same_view:
  assumes "columns data = table_cols" and "plain_street a"
    and "df_filter a selected_mths data = Inr view" and "rows view \<noteq> []"
  shows "df_filter a selected_mths (data\<lparr>rows := rows view\<rparr>) = Inr view"
proof -
  let ?E = "early_pred a selected_mths"
  obtain rs where
    rs: "those (map with_lease_fields (filter ?E (rows data))) = Some rs"
    and view: "view = \<lparr>columns = view_cols a, rows = filter (late_pred a) rs\<rparr>"
    using assms(1,3) by (rule df_filter_canonical_Inr)
  have "those (map with_lease_fields (filter ?E (filter ?E (rows data)))) = Some (filter ?E rs)"
    using rs by (rule those_map_filter [rotated]) (rule early_pred_keeps)
  then have E: "filter ?E rs = rs"
    using rs by simp
  have "map with_lease_fields rs = map Some rs"
    using rs by (rule those_map_fixed) (rule with_lease_fields_again)
  then have "\<forall>r \<in> set rs. with_lease_fields r = Some r"
    by (simp add: map_eq_conv)
  then have "map with_lease_fields (filter (late_pred a) rs) = map Some (filter (late_pred a) rs)"
    by (intro map_cong [OF refl]) simp
  then have again: "those (map with_lease_fields (filter (late_pred a) rs))
                      = Some (filter (late_pred a) rs)"
    by (simp only: those_map_Some_id)
  have "filter ?E (filter (late_pred a) rs) = filter (late_pred a) (filter ?E rs)"
    by (simp add: conj_commute)
  then have "filter ?E (filter (late_pred a) rs) = filter (late_pred a) rs"
    by (simp only: E)
  moreover have "columns (data\<lparr>rows := rows view\<rparr>) = table_cols"
    using assms(1) by simp
  moreover have "rows (data\<lparr>rows := rows view\<rparr>) \<noteq> []"
    using assms(4) by simp
  ultimately show ?thesis
    by (simp add: df_filter_canonical view again)
qed

text \<open>The theorem of C8 on the example, whose view has two rows.\<close>

theorem filter_again_same_view_witness:
  "columns example_table = table_cols \<and>
   plain_street example_args \<and>
   df_filter example_args example_mths example_table = Inr example_view \<and>
   length (rows example_view) = 2 \<and>
   df_filter example_args example_mths (example_table\<lparr>rows := rows example_view\<rparr>)
     = Inr example_view"
proof -
  have c: "columns example_table = table_cols"
    by (simp add: example_table_def)
  have p: "plain_street example_args"
    by (simp add: plain_street_def example_args_def)
  have v: "df_filter example_args example_mths example_table = Inr example_view"
    by (simp add: example_defs eval_defs)
  have n: "rows example_view \<noteq> []" and l: "length (rows example_view) = 2"
    by (simp_all add: example_view_def)
  show ?thesis
    using c p v l filter_again_same_view [OF c p v n] by simp
qed

text \<open>
  C8 as stated fails: the view has the columns \<open>year_count\<close> and \<open>mth_count\<close>, and the
  filter applied to the view raises when line 190 adds them again.
\<close>

theorem filter_again_raises:
  "df_filter example_args example_mths example_table = Inr example_view \<and>
   df_filter example_args example_mths example_view = Inl DuplicateError"
  by (simp add: example_defs eval_defs)

section \<open>Empty selections (C9)\<close>

text \<open>The rows after the lease step are the rows before it, each with its lease columns.\<close>

lemma those_map_set:
  "those (map f xs) = Some ys \<Longrightarrow> set ys = {y. \<exists>x \<in> set xs. f x = Some y}"
proof (induction xs arbitrary: ys)
  case Nil
  then show ?case by simp
next
  case (Cons x xs)
  from Cons.prems obtain y zs where y: "f x = Some y" and zs: "those (map f xs) = Some zs"
    and ys: "ys = y # zs"
    by (auto split: option.splits)
  show ?case
    using Cons.IH [OF zs] y ys by auto
qed

lemma those_map_all:
  "\<forall>x \<in> set xs. f x \<noteq> None \<Longrightarrow> \<exists>ys. those (map f xs) = Some ys"
  by (induction xs) auto

text \<open>
  C9, as the code has it, for a table with rows and the columns of the normalizer, and a
  street text without operators of regular expressions but \<open>|\<close>. When \<open>flat\<close> is empty
  the filter returns a view without rows, and no error. When the lease text of every row
  is a number, the filter returns a view for every choice of arguments, and the view has
  no rows exactly when no row of the table matches the search: a search without matches
  gives the view without rows, and no other search does.
\<close>

theorem empty_selection_zero_rows:
  assumes "columns data = table_cols" and "rows data \<noteq> []" and "plain_street a"
  shows "(arg_flat a = [] \<longrightarrow>
            (\<exists>view. df_filter a selected_mths data = Inr view \<and> rows view = [])) \<and>
         ((\<forall>r \<in> set (rows data). with_lease_fields r \<noteq> None) \<longrightarrow>
            (\<exists>view. df_filter a selected_mths data = Inr view \<and>
               (rows view = [] \<longleftrightarrow> (\<forall>r \<in> set (rows data). \<not> row_matches a selected_mths r))))"
proof -
  let ?E = "early_pred a selected_mths"
  note canonical = df_filter_canonical [OF assms(1,2)]
  have 1: "arg_flat a = [] \<longrightarrow>
        (\<exists>view. df_filter a selected_mths data = Inr view \<and> rows view = [])"
  proof
    assume "arg_flat a = []"
    then have "filter ?E (rows data) = []"
      by (simp add: early_pred_def)
    then show "\<exists>view. df_filter a selected_mths data = Inr view \<and> rows view = []"
      by (simp add: canonical)
  qed
  have 2: "(\<forall>r \<in> set (rows data). with_lease_fields r \<noteq> None) \<longrightarrow>
        (\<exists>view. df_filter a selected_mths data = Inr view \<and>
           (rows view = [] \<longleftrightarrow> (\<forall>r \<in> set (rows data). \<not> row_matches a selected_mths r)))"
  proof
    assume all: "\<forall>r \<in> set (rows data). with_lease_fields r \<noteq> None"
    then have "\<forall>r \<in> set (filter ?E (rows data)). with_lease_fields r \<noteq> None"
      by simp
    then obtain rs where rs: "those (map with_lease_fields (filter ?E (rows data))) = Some rs"
      using those_map_all by blast
    have set_rs: "set rs = {r'. \<exists>r \<in> set (filter ?E (rows data)). with_lease_fields r = Some r'}"
      by (rule those_map_set [OF rs])
    have "(filter (late_pred a) rs = []) \<longleftrightarrow> (\<forall>r' \<in> set rs. \<not> late_pred a r')"
      by (simp add: filter_empty_conv)
    also have "\<dots> \<longleftrightarrow> (\<forall>r \<in> set (rows data). \<not> row_matches a selected_mths r)"
      unfolding set_rs using all by (auto simp: row_matches_def split: option.splits)
    finally have "(filter (late_pred a) rs = [])
        \<longleftrightarrow> (\<forall>r \<in> set (rows data). \<not> row_matches a selected_mths r)" .
    then show "\<exists>view. df_filter a selected_mths data = Inr view \<and>
           (rows view = [] \<longleftrightarrow> (\<forall>r \<in> set (rows data). \<not> row_matches a selected_mths r))"
      by (simp add: canonical rs)
  qed
  show ?thesis
    using 1 2 by blast
qed

text \<open>
  The theorem of C9 on the example (every lease text of the example is a number): no
  flat type, a town that no row has, and a price above every row give the view without
  rows; the search for 4RM matches two rows and returns them.
\<close>

theorem empty_selection_zero_rows_witness:
  "columns example_table = table_cols \<and>
   length (rows example_table) = 3 \<and>
   plain_street (example_args\<lparr>arg_town := ''YISHUN''\<rparr>) \<and>
   list_all (\<lambda>r. with_lease_fields r \<noteq> None) (rows example_table) \<and>
   df_filter (example_args\<lparr>arg_flat := []\<rparr>) example_mths example_table
     = Inr (example_view\<lparr>rows := []\<rparr>) \<and>
   list_all (\<lambda>r. \<not> row_matches (example_args\<lparr>arg_town := ''YISHUN''\<rparr>) example_mths r)
     (rows example_table) \<and>
   df_filter (example_args\<lparr>arg_town := ''YISHUN''\<rparr>) example_mths example_table
     = Inr (example_view\<lparr>rows := []\<rparr>) \<and>
   df_filter (example_args\<lparr>arg_min_price := Some 700000\<rparr>) example_mths example_table
     = Inr (example_view\<lparr>rows := []\<rparr>) \<and>
   row_matches example_args example_mths bedok_4rm \<and>
   df_filter example_args example_mths example_table = Inr example_view"
proof -
  have c: "columns example_table = table_cols"
    and n: "rows example_table \<noteq> []" and l: "length (rows example_table) = 3"
    by (simp_all add: example_table_def)
  have p: "plain_street (example_args\<lparr>arg_flat := []\<rparr>)"
    "plain_street (example_args\<lparr>arg_town := ''YISHUN''\<rparr>)"
    "plain_street (example_args\<lparr>arg_min_price := Some 700000\<rparr>)"
    "plain_street example_args"
    by (simp_all add: plain_street_def example_args_def)
  have parse: "\<forall>r \<in> set (rows example_table). with_lease_fields r \<noteq> None"
    by (simp add: example_defs with_lease_fields_def split_exact_y_def cast_int32_def
        parse_nat_def digit_val_def is_digit_def)
  have 1: "df_filter (example_args\<lparr>arg_flat := []\<rparr>) example_mths example_table
             = Inr (example_view\<lparr>rows := []\<rparr>)"
    by (simp add: example_defs eval_defs)
  have 2: "df_filter (example_args\<lparr>arg_town := ''YISHUN''\<rparr>) example_mths example_table
             = Inr (example_view\<lparr>rows := []\<rparr>)"
    by (simp add: example_defs eval_defs)
  have 3: "df_filter (example_args\<lparr>arg_min_price := Some 700000\<rparr>) example_mths example_table
             = Inr (example_view\<lparr>rows := []\<rparr>)"
    by (simp add: example_defs eval_defs)
  have 4: "df_filter example_args example_mths example_table = Inr example_view"
    by (simp add: example_defs eval_defs)
  have "\<forall>r \<in> set (rows example_table).
          \<not> row_matches (example_args\<lparr>arg_town := ''YISHUN''\<rparr>) example_mths r"
    using empty_selection_zero_rows [OF c n p(2), where selected_mths = example_mths]
      parse 2
    by auto
  then have 5: "list_all (\<lambda>r. \<not> row_matches (example_args\<lparr>arg_town := ''YISHUN''\<rparr>)
                     example_mths r) (rows example_table)"
    by (simp add: list_all_iff)
  have 6: "row_matches example_args example_mths bedok_4rm"
    by (simp add: row_matches_def early_pred_def late_pred_def street_pred_def bound_pred_def
        example_defs with_lease_fields_def split_exact_y_def cast_int32_def parse_nat_def
        digit_val_def is_digit_def py_slice_from_def convert_price_area_def Let_def)
  have 7: "list_all (\<lambda>r. with_lease_fields r \<noteq> None) (rows example_table)"
    using parse by (simp add: list_all_iff)
  show ?thesis
    using c l p(2) 1 2 3 4 5 6 7 by simp
qed

text \<open>
  C9 as stated fails for a table without rows: the text of the table is the empty list,
  the frame read back from it has no column \<open>month\<close>, and the first step of the filter
  raises.
\<close>

theorem empty_table_raises:
  "rows (example_table\<lparr>rows := []\<rparr>) = [] \<and>
   df_filter example_args example_mths (example_table\<lparr>rows := []\<rparr>) = Inl ColumnNotFoundError"
  by (simp add: example_defs eval_defs)

section \<open>Bounds of zero (C10)\<close>

text \<open>
  C10: each of the six bounds, given as 0, is treated as the absent bound: \<open>if bound:\<close>
  is false for 0, so the step does not run.
\<close>

theorem zero_bound_is_absent:
  "df_filter (a\<lparr>arg_max_lease := Some 0\<rparr>) selected_mths data
     = df_filter (a\<lparr>arg_max_lease := None\<rparr>) selected_mths data \<and>
   df_filter (a\<lparr>arg_min_lease := Some 0\<rparr>) selected_mths data
     = df_filter (a\<lparr>arg_min_lease := None\<rparr>) selected_mths data \<and>
   df_filter (a\<lparr>arg_max_price := Some 0\<rparr>) selected_mths data
     = df_filter (a\<lparr>arg_max_price := None\<rparr>) selected_mths data \<and>
   df_filter (a\<lparr>arg_min_price := Some 0\<rparr>) selected_mths data
     = df_filter (a\<lparr>arg_min_price := None\<rparr>) selected_mths data \<and>
   df_filter (a\<lparr>arg_max_area := Some 0\<rparr>) selected_mths data
     = df_filter (a\<lparr>arg_max_area := None\<rparr>) selected_mths data \<and>
   df_filter (a\<lparr>arg_min_area := Some 0\<rparr>) selected_mths data
     = df_filter (a\<lparr>arg_min_area := None\<rparr>) selected_mths data"
  by (simp add: df_filter_def if_truthy_def Let_def cong: if_cong)

text \<open>
  The theorem of C10 on the example, with \<open>max_price = 0\<close>: the rows of 500000 and 600000
  stay in the view.
\<close>

theorem zero_bound_is_absent_witness:
  "df_filter (example_args\<lparr>arg_max_price := Some 0\<rparr>) example_mths example_table
     = Inr example_view \<and>
   map price (rows example_view) = [500000, 600000]"
proof -
  have "df_filter (example_args\<lparr>arg_max_price := None\<rparr>) example_mths example_table
          = Inr example_view"
    by (simp add: example_defs eval_defs)
  moreover have "map price (rows example_view) = [500000, 600000]"
    by (simp add: example_defs)
  ultimately show ?thesis
    using zero_bound_is_absent [where a = example_args and selected_mths = example_mths
        and data = example_table] by simp
qed

section \<open>The derived metrics (C7)\<close>















section \<open>The summary (C3)\<close>

text \<open>
  The built-in \<open>min\<close> and \<open>max\<close> are the least and the greatest number of the series,
  and the three branches of \<open>update_text\<close> that are written as meant return them.
\<close>

lemma py_min_Min: "xs \<noteq> [] \<Longrightarrow> py_min xs = Inr (Min (set xs))"
proof (cases xs)
  case Nil
  assume "xs \<noteq> []"
  with Nil show ?thesis by simp
next
  case (Cons x rest)
  then show ?thesis
    using Min.set_eq_fold [of x rest] by (simp add: py_min_def)
qed

lemma py_max_Max: "xs \<noteq> [] \<Longrightarrow> py_max xs = Inr (Max (set xs))"
proof (cases xs)
  case Nil
  assume "xs \<noteq> []"
  with Nil show ?thesis by simp
next
  case (Cons x rest)
  then show ?thesis
    using Max.set_eq_fold [of x rest] by (simp add: py_max_def)
qed

lemma min_max_of_scalar:
  assumes "rows df \<noteq> []" and "has_columns [col_name pc] df" and "has_columns [col_name ac] df"
  shows "min_max_of pc ac df =
     Inr (Some \<lparr>price_min = Min (col_val pc ` set (rows df)),
                price_max = Max (col_val pc ` set (rows df)),
                area_min = Min (col_val ac ` set (rows df)),
                area_max = Max (col_val ac ` set (rows df)),
                records = length (rows df)\<rparr>)"
  using assms by (simp add: min_max_of_def select_series_def py_min_Min py_max_Max)

lemma update_text_siblings:
  assumes "rows df \<noteq> []"
  shows "has_columns [''price''] df \<Longrightarrow> has_columns [''area_sqm''] df \<Longrightarrow>
           update_text df ''Sq M'' ''Price'' = min_max_of Price Area_sqm df"
    and "has_columns [''price''] df \<Longrightarrow> has_columns [''area_sqft''] df \<Longrightarrow>
           update_text df ''Sq Feet'' ''Price'' = min_max_of Price Area_sqft df"
    and "has_columns [''price_sqft''] df \<Longrightarrow> has_columns [''area_sqft''] df \<Longrightarrow>
           update_text df ''Sq Feet'' ''Price / Area'' = min_max_of Price_sqft Area_sqft df"
  using assms by (simp_all add: update_text_def)

text \<open>
  C3 fails for the price per area in square metres: on the example view (two rows, with
  the columns \<open>price_sqm\<close> and \<open>area_sqm\<close>) \<open>update_text\<close> raises AttributeError at line
  580, where the claim has the maximum of \<open>price_sqm\<close>. For the price in square metres
  the same view gives the four bounds and the record count.
\<close>

theorem update_text_per_area_sqm_raises:
  "update_text example_view ''Sq M'' ''Price / Area'' = Inl AttributeError \<and>
   update_text example_view ''Sq M'' ''Price''
     = Inr (Some \<lparr>price_min = 500000, price_max = 600000, area_min = 90, area_max = 95,
                  records = 2\<rparr>)"
  by (simp add: update_text_def min_max_of_def select_series_def py_min_def py_max_def
      has_columns_def example_defs)

end
